theory Spec2Isabelle
  imports Complex_Main "HOL-Library.Product_Lexorder" "HOL-Library.Multiset"
begin

section \<open>Python numbers\<close>

text \<open>
  Python integers are unbounded: they are \<open>int\<close>. A Python float is an IEEE double; every
  finite double is a rational number, so floats are values of type \<open>rat\<close> and each float
  operation is the exact operation followed by rounding to the nearest double, ties to
  even (\<open>fl\<close>). \<open>binade\<close> scales a positive rational into \<open>[2^52, 2^53)\<close>, counting the
  power of two; 2200 steps reach every finite double from 1, so overflow to infinity and
  the subnormal range are the only parts of double arithmetic that \<open>fl\<close> leaves out.
\<close>

fun binade :: "nat \<Rightarrow> rat \<Rightarrow> int \<Rightarrow> rat \<times> int" where
  "binade fuel a e =
     (if fuel = 0 then (a, e)
      else if a < 4503599627370496 then binade (fuel - 1) (a * 2) (e - 1)
      else if 9007199254740992 \<le> a then binade (fuel - 1) (a / 2) (e + 1)
      else (a, e))"

declare binade.simps [simp del]

definition pow2 :: "int \<Rightarrow> rat" where
  "pow2 e = (if 0 \<le> e then 2 ^ nat e else 1 / 2 ^ nat (- e))"

definition round_half_even :: "rat \<Rightarrow> int" where
  "round_half_even x =
     (let f = \<lfloor>x\<rfloor>; d = x - of_int f
      in if d < 1 / 2 then f else if 1 / 2 < d then f + 1
         else if even f then f else f + 1)"

definition fl :: "rat \<Rightarrow> rat" where
  "fl x =
     (if x = 0 then 0
      else let (m, e) = binade 2200 \<bar>x\<bar> 0
           in sgn x * of_int (round_half_even m) * pow2 e)"

definition float_of_int :: "int \<Rightarrow> rat" where
  "float_of_int n = fl (of_int n)"

definition fmul :: "rat \<Rightarrow> rat \<Rightarrow> rat" where
  "fmul x y = fl (x * y)"

definition fdiv :: "rat \<Rightarrow> rat \<Rightarrow> rat" where
  "fdiv x y = fl (x / y)"

text \<open>\<open>int(x)\<close> on a float truncates toward zero.\<close>

definition py_int :: "rat \<Rightarrow> int" where
  "py_int x = (if 0 \<le> x then \<lfloor>x\<rfloor> else \<lceil>x\<rceil>)"

text \<open>\<open>str\<close> of an integer, as an f-string prints it.\<close>

fun show_nat :: "nat \<Rightarrow> string" where
  "show_nat n =
     (if n < 10 then [''0123456789'' ! n]
      else show_nat (n div 10) @ [''0123456789'' ! (n mod 10)])"

declare show_nat.simps [simp del]

definition show_int :: "int \<Rightarrow> string" where
  "show_int i = (if i < 0 then CHR ''-'' # show_nat (nat (- i)) else show_nat (nat i))"

section \<open>Data model\<close>

text \<open>
  The severity of a violation is one of the three strings \<open>'High'\<close>, \<open>'Medium'\<close>,
  \<open>'Low'\<close>: the keys of \<open>severity_weights\<close> and of \<open>by_severity\<close>.
\<close>

datatype severity = High | Medium | Low

text \<open>
  A violation is a Python dict. The keys \<open>type\<close>, \<open>severity\<close>, \<open>location\<close>,
  \<open>reference\<close> and \<open>bbox\<close> are always written by the rule engine; \<open>priority\<close>,
  \<open>cost\<close> and \<open>labor_hours\<close> are read with \<open>.get\<close> or tested with \<open>in\<close>, so they
  are optional. The display strings \<open>detected_value\<close>, \<open>standard_value\<close> and
  \<open>recommendation\<close> are formatted text that no branch of the code reads; the record
  leaves them out.
\<close>

record violation =
  vtype :: string
  severity :: severity
  location :: string
  reference :: string
  bbox :: "rat list"
  priority :: "int option"
  cost :: "int option"
  labor_hours :: "int option"

text \<open>
  A detection dict. \<open>detection.get('id', id(detection))\<close> falls back on the identity of
  the dict object itself, which is \<open>identity\<close> here.
\<close>

record detection =
  det_key :: "int option"
  identity :: int
  class_name :: string
  confidence :: rat
  det_bbox :: "rat list"

text \<open>
  The measurements dict maps a measurement kind to a dict from detection id to value;
  a kind may be missing altogether (\<open>'slope' in measurements\<close>).
\<close>

record measurements =
  slope :: "(int \<rightharpoonup> rat) option"
  cross_slope :: "(int \<rightharpoonup> rat) option"
  width :: "(int \<rightharpoonup> rat) option"
  detectable_warning :: "(int \<rightharpoonup> bool) option"
  landing_size :: "(int \<rightharpoonup> rat \<times> rat) option"
  max_gap :: "(int \<rightharpoonup> rat) option"
  vertical_change :: "(int \<rightharpoonup> rat) option"
  has_curb_ramps :: "(int \<rightharpoonup> bool) option"
  marking_quality :: "(int \<rightharpoonup> rat) option"

section \<open>Cost estimator\<close>

record cost_info =
  ci_min :: int
  ci_max :: int
  typical :: int
  unit :: string
  ci_labor_hours :: int

definition BASE_COSTS :: "string \<rightharpoonup> cost_info" where
  "BASE_COSTS = map_of
     [(''Curb Ramp Slope'',
         \<lparr>ci_min = 2000, ci_max = 3500, typical = 2500, unit = ''per ramp'', ci_labor_hours = 16\<rparr>),
      (''Cross Slope'',
         \<lparr>ci_min = 2500, ci_max = 4000, typical = 3200, unit = ''per section'', ci_labor_hours = 20\<rparr>),
      (''Sidewalk Width'',
         \<lparr>ci_min = 1500, ci_max = 2500, typical = 1800, unit = ''per linear foot'', ci_labor_hours = 12\<rparr>),
      (''Detectable Warning'',
         \<lparr>ci_min = 600, ci_max = 1200, typical = 800, unit = ''per installation'', ci_labor_hours = 4\<rparr>),
      (''Surface Quality'',
         \<lparr>ci_min = 1800, ci_max = 3000, typical = 2200, unit = ''per section'', ci_labor_hours = 14\<rparr>),
      (''Landing Size'',
         \<lparr>ci_min = 1200, ci_max = 2000, typical = 1500, unit = ''per landing'', ci_labor_hours = 10\<rparr>),
      (''Missing Curb Ramps'',
         \<lparr>ci_min = 3000, ci_max = 4500, typical = 3500, unit = ''per ramp'', ci_labor_hours = 24\<rparr>),
      (''Crosswalk Markings'',
         \<lparr>ci_min = 300, ci_max = 600, typical = 400, unit = ''per crossing'', ci_labor_hours = 2\<rparr>),
      (''Trip Hazard'',
         \<lparr>ci_min = 800, ci_max = 1800, typical = 1200, unit = ''per repair'', ci_labor_hours = 8\<rparr>)]"

definition COMPLEXITY_FACTORS :: "string \<rightharpoonup> rat" where
  "COMPLEXITY_FACTORS = map_of
     [(''urban_high_traffic'', fl (13 / 10)),
      (''historic_district'', fl (15 / 10)),
      (''utility_conflicts'', fl (14 / 10)),
      (''drainage_issues'', fl (12 / 10)),
      (''standard'', fl 1)]"

record breakdown_item =
  b_type :: string
  b_cost :: int
  b_unit :: string
  b_labor_hours :: int
  b_priority :: int

text \<open>
  The dict \<open>estimate\<close> returns. The early return for an empty list writes only
  \<open>total_cost\<close>, \<open>timeline\<close>, \<open>breakdown\<close> and \<open>labor_hours\<close>; the other three keys
  exist only on the main path, so they are optional.
\<close>

record estimate_result =
  total_cost :: int
  contingency :: "int option"
  total_with_contingency :: "int option"
  timeline :: string
  breakdown :: "breakdown_item list"
  total_labor_hours :: int
  complexity_factor :: "rat option"

definition estimate_timeline :: "int \<Rightarrow> nat \<Rightarrow> string" where
  "estimate_timeline labor num_violations =
     (let crew_size = fl (5 / 2);
          hours_per_day = 7;
          work_days = fdiv (float_of_int labor) (fmul crew_size (float_of_int hours_per_day));
          work_days2 = fmul work_days (fl (12 / 10));
          work_weeks = fdiv work_days2 (float_of_int 5)
      in if work_weeks < 1 then show_int (py_int work_days2) @ '' days''
         else if work_weeks < 4 then show_int (py_int work_weeks) @ '' weeks''
         else if work_weeks < 12 then
           (let months = py_int (fdiv work_weeks (float_of_int 4))
            in show_int months @ ''-'' @ show_int (months + 1) @ '' months'')
         else
           (let months = py_int (fdiv work_weeks (float_of_int 4))
            in show_int months @ '' months''))"

text \<open>
  One turn of the loop of \<open>estimate\<close>. The state is the breakdown so far, the two running
  totals, and the violations already visited, each with the \<open>cost\<close> and \<open>labor_hours\<close>
  the loop body wrote into it.
\<close>

type_synonym estimate_state = "breakdown_item list \<times> int \<times> int \<times> violation list"

fun estimate_step :: "rat \<Rightarrow> estimate_state \<Rightarrow> violation \<Rightarrow> estimate_state" where
  "estimate_step multiplier (bd, tot, labor, seen) v =
     (case BASE_COSTS (vtype v) of
        Some info \<Rightarrow>
          (let base_cost = typical info;
               adjusted_cost = py_int (fmul (float_of_int base_cost) multiplier)
           in (bd @ [\<lparr>b_type = vtype v, b_cost = adjusted_cost, b_unit = unit info,
                       b_labor_hours = ci_labor_hours info,
                       b_priority = (case priority v of Some p \<Rightarrow> p | None \<Rightarrow> 2)\<rparr>],
               tot + adjusted_cost,
               labor + ci_labor_hours info,
               seen @ [v\<lparr>cost := Some adjusted_cost,
                          labor_hours := Some (ci_labor_hours info)\<rparr>]))
      | None \<Rightarrow>
          (bd, tot + 1000, labor + 8,
           seen @ [v\<lparr>cost := Some 1000, labor_hours := Some 8\<rparr>]))"

text \<open>\<open>self.COMPLEXITY_FACTORS.get(complexity, 1.0)\<close>\<close>

definition get_multiplier :: "string \<Rightarrow> rat" where
  "get_multiplier complexity =
     (case COMPLEXITY_FACTORS complexity of Some m \<Rightarrow> m | None \<Rightarrow> fl 1)"

text \<open>
  \<open>estimate\<close> returns its dict and, through the mutated argument, the violations with
  their costs; the model returns both.
\<close>

definition estimate :: "violation list \<Rightarrow> string \<Rightarrow> estimate_result \<times> violation list" where
  "estimate violations complexity =
     (if violations = [] then
        (\<lparr>total_cost = 0, contingency = None, total_with_contingency = None,
          timeline = ''N/A'', breakdown = [], total_labor_hours = 0,
          complexity_factor = None\<rparr>, violations)
      else
        (let multiplier = get_multiplier complexity;
             (bd, tot, labor, seen) = foldl (estimate_step multiplier) ([], 0, 0, []) violations;
             tl = estimate_timeline labor (length violations);
             cont = py_int (fmul (float_of_int tot) (fl (12 / 100)))
         in (\<lparr>total_cost = tot, contingency = Some cont,
               total_with_contingency = Some (tot + cont),
               timeline = tl, breakdown = bd, total_labor_hours = labor,
               complexity_factor = Some multiplier\<rparr>, seen)))"

subsection \<open>Phased plan\<close>

record phase =
  ph_violations :: "violation list"
  ph_cost :: int
  phase_number :: int

record phased_plan =
  phases :: "phase list"
  total_phases :: int
  fully_funded :: bool

text \<open>A Python call returns a value or raises; \<open>Inl\<close> is the raised exception.\<close>

datatype py_exception = KeyError string

definition get_cost :: "violation \<Rightarrow> int" where
  "get_cost v = (case cost v of Some c \<Rightarrow> c | None \<Rightarrow> 0)"

definition phase_key :: "violation \<Rightarrow> int \<times> int" where
  "phase_key x = ((case priority x of Some p \<Rightarrow> p | None \<Rightarrow> 3), - get_cost x)"

text \<open>
  The loop state: the closed phases, the phase being filled, and the remaining budget.
  When a violation does not fit, a new phase is opened only if the current one holds
  something; otherwise the loop body does nothing for that violation.
\<close>

type_synonym phase_state = "phase list \<times> phase \<times> int"

fun phase_step :: "int \<Rightarrow> phase_state \<Rightarrow> violation \<Rightarrow> phase_state" where
  "phase_step budget_constraint (phs, current_phase, remaining_budget) v =
     (let c = get_cost v
      in if c \<le> remaining_budget then
           (phs,
            current_phase\<lparr>ph_violations := ph_violations current_phase @ [v],
                           ph_cost := ph_cost current_phase + c\<rparr>,
            remaining_budget - c)
         else if ph_violations current_phase \<noteq> [] then
           (phs @ [current_phase],
            \<lparr>ph_violations = [v], ph_cost = c,
             phase_number = int (length (phs @ [current_phase])) + 1\<rparr>,
            budget_constraint - c)
         else (phs, current_phase, remaining_budget))"

definition estimate_phased_approach ::
  "violation list \<Rightarrow> int \<Rightarrow> py_exception + phased_plan" where
  "estimate_phased_approach violations budget_constraint =
     (let sorted_violations = sort_key phase_key violations;
          (phs, current_phase, remaining_budget) =
             foldl (phase_step budget_constraint)
               ([], \<lparr>ph_violations = [], ph_cost = 0, phase_number = 1\<rparr>, budget_constraint)
               sorted_violations;
          phs2 = (if ph_violations current_phase \<noteq> [] then phs @ [current_phase] else phs)
      in Inr \<lparr>phases = phs2, total_phases = int (length phs2),
               fully_funded = (0 \<le> remaining_budget)\<rparr>)"

text \<open>
  \<open>generate_cost_summary\<close> calls \<open>estimate\<close> with the default complexity, groups the
  costs that call wrote into the violations, and then reads four keys of the estimate by
  subscript; a key the estimate does not have raises \<open>KeyError\<close>.
\<close>

record cost_summary =
  total_violations :: int
  s_total_cost :: int
  s_total_with_contingency :: int
  s_timeline :: string
  by_severity :: "severity \<Rightarrow> int"
  by_type :: "string \<rightharpoonup> int"
  s_labor_hours :: int
  non_compliance_risk :: int
  roi_payback_years :: rat

definition int_truediv :: "int \<Rightarrow> int \<Rightarrow> rat" where
  "int_truediv a b = fl (of_int a / of_int b)"

definition generate_cost_summary :: "violation list \<Rightarrow> py_exception + cost_summary" where
  "generate_cost_summary violations =
     (let (est, vs) = estimate violations ''standard'';
          sev = foldl (\<lambda>acc v. acc(severity v := acc (severity v) + get_cost v)) (\<lambda>_. 0) vs;
          typ = foldl (\<lambda>acc v. acc(vtype v \<mapsto>
                         (case acc (vtype v) of Some c \<Rightarrow> c | None \<Rightarrow> 0) + get_cost v))
                  Map.empty vs;
          non_compliance_cost = int (length vs) * 5000
      in case total_with_contingency est of
           None \<Rightarrow> Inl (KeyError ''total_with_contingency'')
         | Some twc \<Rightarrow>
             Inr \<lparr>total_violations = int (length vs), s_total_cost = total_cost est,
                  s_total_with_contingency = twc, s_timeline = timeline est,
                  by_severity = sev, by_type = typ,
                  s_labor_hours = total_labor_hours est,
                  non_compliance_risk = non_compliance_cost,
                  roi_payback_years = int_truediv (total_cost est) (max non_compliance_cost 1)\<rparr>)"

section \<open>Compliance rule engine\<close>

definition MAX_CURB_RAMP_SLOPE :: rat where "MAX_CURB_RAMP_SLOPE = fl (833 / 100)"
definition MAX_CROSS_SLOPE :: rat where "MAX_CROSS_SLOPE = fl 2"
definition MIN_SIDEWALK_WIDTH :: rat where "MIN_SIDEWALK_WIDTH = 36"
definition MAX_SURFACE_GAP :: rat where "MAX_SURFACE_GAP = fl (1 / 2)"
definition MAX_VERTICAL_CHANGE :: rat where "MAX_VERTICAL_CHANGE = fl (1 / 4)"
definition MIN_LANDING_SIZE :: rat where "MIN_LANDING_SIZE = 36"

text \<open>\<open>str.lower\<close> on ASCII letters, and the substring test \<open>sub in s\<close>.\<close>

definition lower_char :: "char \<Rightarrow> char" where
  "lower_char c =
     (case map_of (zip ''ABCDEFGHIJKLMNOPQRSTUVWXYZ'' ''abcdefghijklmnopqrstuvwxyz'') c of
        Some l \<Rightarrow> l
      | None \<Rightarrow> c)"

definition lower :: "string \<Rightarrow> string" where
  "lower s = map lower_char s"

fun substring_in :: "string \<Rightarrow> string \<Rightarrow> bool" where
  "substring_in sub [] = (sub = [])"
| "substring_in sub (c # cs) = (take (length sub) (c # cs) = sub \<or> substring_in sub cs)"

definition get_det_id :: "detection \<Rightarrow> int" where
  "get_det_id d = (case det_key d of Some i \<Rightarrow> i | None \<Rightarrow> identity d)"

text \<open>
  The dict literal each check appends: type, severity, location, reference, the bbox of
  the detection, and the priority; \<open>cost\<close> and \<open>labor_hours\<close> are not written yet.
\<close>

definition new_violation ::
  "string \<Rightarrow> severity \<Rightarrow> string \<Rightarrow> string \<Rightarrow> detection \<Rightarrow> int \<Rightarrow> violation" where
  "new_violation t sev loc ref d p =
     \<lparr>vtype = t, severity = sev, location = loc, reference = ref, bbox = det_bbox d,
      priority = Some p, cost = None, labor_hours = None\<rparr>"

text \<open>
  \<open>x = m.get(det_id)\<close> followed by \<open>if x and x > limit\<close>: a missing id gives \<open>None\<close>,
  which is falsy, and so is the number zero.
\<close>

definition over_limit :: "(int \<rightharpoonup> rat) \<Rightarrow> int \<Rightarrow> rat \<Rightarrow> bool" where
  "over_limit f det_id limit = (case f det_id of None \<Rightarrow> False | Some x \<Rightarrow> x \<noteq> 0 \<and> limit < x)"

definition under_limit :: "(int \<rightharpoonup> rat) \<Rightarrow> int \<Rightarrow> rat \<Rightarrow> bool" where
  "under_limit f det_id limit = (case f det_id of None \<Rightarrow> False | Some x \<Rightarrow> x \<noteq> 0 \<and> x < limit)"

text \<open>\<open>m.get(det_id, False)\<close> followed by \<open>if not x\<close>: a missing id counts as \<open>False\<close>.\<close>

definition lacking :: "(int \<rightharpoonup> bool) \<Rightarrow> int \<Rightarrow> bool" where
  "lacking f det_id = (\<not> (case f det_id of None \<Rightarrow> False | Some b \<Rightarrow> b))"

definition check_curb_ramp :: "detection \<Rightarrow> measurements \<Rightarrow> violation list" where
  "check_curb_ramp d m =
     (let det_id = get_det_id d
      in (case slope m of
            Some f \<Rightarrow>
              if over_limit f det_id MAX_CURB_RAMP_SLOPE
              then [new_violation ''Curb Ramp Slope'' High ''Detected curb ramp'' ''ADAAG 406.2'' d 1]
              else []
          | None \<Rightarrow> [])
       @ (case cross_slope m of
            Some f \<Rightarrow>
              if over_limit f det_id MAX_CROSS_SLOPE
              then [new_violation ''Cross Slope'' High ''Curb ramp cross slope'' ''ADAAG 406.3'' d 1]
              else []
          | None \<Rightarrow> [])
       @ (case detectable_warning m of
            Some f \<Rightarrow>
              if lacking f det_id
              then [new_violation ''Detectable Warning'' High ''Curb ramp'' ''ADAAG 705'' d 1]
              else []
          | None \<Rightarrow> [])
       @ (case landing_size m of
            Some f \<Rightarrow>
              (case f det_id of
                 Some (a, b) \<Rightarrow>
                   if a < MIN_LANDING_SIZE \<or> b < MIN_LANDING_SIZE
                   then [new_violation ''Landing Size'' Medium ''Curb ramp landing'' ''ADAAG 406.4'' d 2]
                   else []
               | None \<Rightarrow> [])
          | None \<Rightarrow> []))"

definition check_sidewalk :: "detection \<Rightarrow> measurements \<Rightarrow> violation list" where
  "check_sidewalk d m =
     (let det_id = get_det_id d
      in (case width m of
            Some f \<Rightarrow>
              if under_limit f det_id MIN_SIDEWALK_WIDTH
              then [new_violation ''Sidewalk Width'' Medium ''Sidewalk'' ''ADAAG 403.5.1'' d 2]
              else []
          | None \<Rightarrow> [])
       @ (case cross_slope m of
            Some f \<Rightarrow>
              if over_limit f det_id MAX_CROSS_SLOPE
              then [new_violation ''Cross Slope'' High ''Sidewalk'' ''ADAAG 406.3'' d 1]
              else []
          | None \<Rightarrow> []))"

definition check_crosswalk :: "detection \<Rightarrow> measurements \<Rightarrow> violation list" where
  "check_crosswalk d m =
     (let det_id = get_det_id d
      in (case has_curb_ramps m of
            Some f \<Rightarrow>
              if lacking f det_id
              then [new_violation ''Missing Curb Ramps'' High ''Crosswalk'' ''ADAAG 406'' d 1]
              else []
          | None \<Rightarrow> [])
       @ (case marking_quality m of
            Some f \<Rightarrow>
              if under_limit f det_id (fl (6 / 10))
              then [new_violation ''Crosswalk Markings'' Medium ''Crosswalk'' ''MUTCD Section 3B.18'' d 2]
              else []
          | None \<Rightarrow> []))"

definition check_surface_quality :: "detection \<Rightarrow> measurements \<Rightarrow> violation list" where
  "check_surface_quality d m =
     (let det_id = get_det_id d
      in (case max_gap m of
            Some f \<Rightarrow>
              if over_limit f det_id MAX_SURFACE_GAP
              then [new_violation ''Surface Quality'' Medium ''Surface'' ''ADAAG 302.3'' d 3]
              else []
          | None \<Rightarrow> [])
       @ (case vertical_change m of
            Some f \<Rightarrow>
              if over_limit f det_id MAX_VERTICAL_CHANGE
              then [new_violation ''Trip Hazard'' High ''Surface'' ''ADAAG 303.2'' d 1]
              else []
          | None \<Rightarrow> []))"

text \<open>The \<open>if\<close>/\<open>elif\<close> chain of \<open>evaluate\<close> for one detection.\<close>

definition check_detection :: "measurements \<Rightarrow> detection \<Rightarrow> violation list" where
  "check_detection m d =
     (let cn = lower (class_name d)
      in if substring_in ''curb'' cn \<or> substring_in ''ramp'' cn then check_curb_ramp d m
         else if substring_in ''sidewalk'' cn \<or> substring_in ''path'' cn then check_sidewalk d m
         else if substring_in ''crosswalk'' cn \<or> substring_in ''crossing'' cn
           then check_crosswalk d m
         else if substring_in ''surface'' cn then check_surface_quality d m
         else [])"

subsection \<open>Prioritizer\<close>

definition cost_estimates :: "string \<rightharpoonup> int" where
  "cost_estimates = map_of
     [(''Curb Ramp Slope'', 2500), (''Cross Slope'', 3200), (''Sidewalk Width'', 1800),
      (''Detectable Warning'', 800), (''Surface Quality'', 2200), (''Landing Size'', 1500),
      (''Missing Curb Ramps'', 3500), (''Crosswalk Markings'', 400), (''Trip Hazard'', 1200)]"

text \<open>The body of the loop of \<open>_prioritize_violations\<close>, for one violation.\<close>

definition assign_cost_priority :: "violation \<Rightarrow> violation" where
  "assign_cost_priority v =
     (let v1 = v\<lparr>cost := Some (case cost_estimates (vtype v) of Some c \<Rightarrow> c | None \<Rightarrow> 1000)\<rparr>
      in case priority v1 of
           Some p \<Rightarrow> v1
         | None \<Rightarrow>
             v1\<lparr>priority := Some (if severity v1 = High then 1
                                    else if severity v1 = Medium then 2 else 3)\<rparr>)"

text \<open>
  The sort key \<open>(x['priority'], -x['cost'])\<close>. The loop has written both keys into every
  violation before the sort reads them. \<open>list.sort\<close> is stable, as \<open>sort_key\<close> is.
\<close>

definition priority_key :: "violation \<Rightarrow> int \<times> int" where
  "priority_key x = (the (priority x), - the (cost x))"

definition prioritize_violations :: "violation list \<Rightarrow> violation list" where
  "prioritize_violations violations = sort_key priority_key (map assign_cost_priority violations)"

definition evaluate :: "measurements \<Rightarrow> detection list \<Rightarrow> violation list" where
  "evaluate m detections = prioritize_violations (concat (map (check_detection m) detections))"

section \<open>Compliance scorer\<close>

fun severity_weights :: "severity \<Rightarrow> int" where
  "severity_weights High = 3"
| "severity_weights Medium = 2"
| "severity_weights Low = 1"

definition calculate_compliance_score :: "violation list \<Rightarrow> detection list \<Rightarrow> int" where
  "calculate_compliance_score violations detections =
     (if detections = [] then 100
      else
        (let total_weight = sum_list (map (\<lambda>v. severity_weights (severity v)) violations);
             max_possible_weight = int (length detections) * 3
         in if max_possible_weight = 0 then 100
            else
              (let score = 100 - py_int (fmul (int_truediv total_weight max_possible_weight)
                                              (float_of_int 100))
               in max 0 (min 100 score))))"

section \<open>Closed forms of the loops\<close>

text \<open>
  What one turn of the loop of \<open>estimate\<close> adds for a violation: its cost, its labor
  hours, the violation as rewritten, and the breakdown entry of a violation of known
  type. The lemmas below show that the loop computes exactly these.
\<close>

definition unit_cost :: "rat \<Rightarrow> violation \<Rightarrow> int" where
  "unit_cost multiplier v =
     (case BASE_COSTS (vtype v) of
        Some info \<Rightarrow> py_int (fmul (float_of_int (typical info)) multiplier)
      | None \<Rightarrow> 1000)"

definition unit_labor :: "violation \<Rightarrow> int" where
  "unit_labor v = (case BASE_COSTS (vtype v) of Some info \<Rightarrow> ci_labor_hours info | None \<Rightarrow> 8)"

definition priced :: "rat \<Rightarrow> violation \<Rightarrow> violation" where
  "priced multiplier v =
     v\<lparr>cost := Some (unit_cost multiplier v), labor_hours := Some (unit_labor v)\<rparr>"

definition known_type :: "violation \<Rightarrow> bool" where
  "known_type v = (BASE_COSTS (vtype v) \<noteq> None)"

definition breakdown_entry :: "rat \<Rightarrow> violation \<Rightarrow> breakdown_item" where
  "breakdown_entry multiplier v =
     \<lparr>b_type = vtype v, b_cost = unit_cost multiplier v,
      b_unit = (case BASE_COSTS (vtype v) of Some info \<Rightarrow> unit info | None \<Rightarrow> []),
      b_labor_hours = unit_labor v,
      b_priority = (case priority v of Some p \<Rightarrow> p | None \<Rightarrow> 2)\<rparr>"

text \<open>
  The violations a state of the phase loop has put into phases so far, and the invariant
  that the cost of every phase is the sum of the costs of its violations.
\<close>

definition placed :: "phase_state \<Rightarrow> violation list" where
  "placed st = (case st of (phs, cur, r) \<Rightarrow> concat (map ph_violations phs) @ ph_violations cur)"

definition costs_add_up :: "phase_state \<Rightarrow> bool" where
  "costs_add_up st =
     (case st of (phs, cur, r) \<Rightarrow>
        list_all (\<lambda>ph. ph_cost ph = sum_list (map get_cost (ph_violations ph))) (phs @ [cur]))"

text \<open>
  The prioritizer is a per-violation rewrite followed by a stable sort; the class tests of
  \<open>evaluate\<close> are named after the branch of the \<open>if\<close>/\<open>elif\<close> chain they select.
\<close>

definition curb_ramp_class :: "detection \<Rightarrow> bool" where
  "curb_ramp_class d =
     (substring_in ''curb'' (lower (class_name d)) \<or> substring_in ''ramp'' (lower (class_name d)))"

definition sidewalk_class :: "detection \<Rightarrow> bool" where
  "sidewalk_class d =
     (\<not> curb_ramp_class d \<and>
      (substring_in ''sidewalk'' (lower (class_name d))
       \<or> substring_in ''path'' (lower (class_name d))))"

definition crosswalk_class :: "detection \<Rightarrow> bool" where
  "crosswalk_class d =
     (\<not> curb_ramp_class d \<and> \<not> sidewalk_class d \<and>
      (substring_in ''crosswalk'' (lower (class_name d))
       \<or> substring_in ''crossing'' (lower (class_name d))))"

text \<open>The measurement kind is present, but its dict has no entry for the id.\<close>

definition absent_in :: "(int \<rightharpoonup> 'a) option \<Rightarrow> int \<Rightarrow> bool" where
  "absent_in kind det_id = (case kind of Some f \<Rightarrow> f det_id = None | None \<Rightarrow> False)"

text \<open>The types of the violations \<open>evaluate\<close> reports for a single detection.\<close>

definition verdicts :: "measurements \<Rightarrow> detection \<Rightarrow> string set" where
  "verdicts m d = vtype ` set (evaluate m [d])"

section \<open>The formulas of the specification\<close>

text \<open>
  The specification states two results of the estimator by formula: the contingency is
  \<open>round(total_cost \<times> 0.12)\<close>, and the adjusted cost of a violation is
  \<open>round(base_typical_cost \<times> multiplier)\<close> with the multipliers 1.0, 1.3, 1.5, 1.4, 1.2 and
  1.0 for an unknown key. They are written here over exact decimals, to be compared with
  what the code computes.
\<close>

definition spec_contingency :: "int \<Rightarrow> int" where
  "spec_contingency tc = round (of_int tc * (12 / 100) :: rat)"

definition decimal_factor :: "string \<Rightarrow> rat" where
  "decimal_factor complexity =
     (case map_of [(''urban_high_traffic'', 13 / 10), (''historic_district'', 15 / 10),
                   (''utility_conflicts'', 14 / 10), (''drainage_issues'', 12 / 10),
                   (''standard'', 1)] complexity
      of Some m \<Rightarrow> m | None \<Rightarrow> 1)"

text \<open>
  The score of the specification:
  \<open>100 \<minus> round(100 \<times> total_weight / max_possible_weight)\<close>, clamped to \<open>[0, 100]\<close>, and
  100 when there is no detection.
\<close>

definition spec_score :: "violation list \<Rightarrow> detection list \<Rightarrow> int" where
  "spec_score violations detections =
     (if detections = [] then 100
      else max 0 (min 100
             (100 - round (100 * of_int (sum_list (map (\<lambda>v. severity_weights (severity v)) violations))
                           / of_int (3 * int (length detections)) :: rat))))"

section \<open>Concrete inputs\<close>

text \<open>Violations as the rule engine and the prioritizer leave them.\<close>

definition v_ramps :: violation where
  "v_ramps = \<lparr>vtype = ''Missing Curb Ramps'', severity = High, location = ''Crosswalk'',
     reference = ''ADAAG 406'', bbox = [0, 0, 10, 10], priority = Some 1, cost = Some 3500,
     labor_hours = None\<rparr>"

text \<open>A violation that no stage has priced yet: \<open>.get('cost', 0)\<close> reads it as free.\<close>

definition v_unpriced :: violation where
  "v_unpriced = \<lparr>vtype = ''Trip Hazard'', severity = High, location = ''Surface'',
     reference = ''ADAAG 303.2'', bbox = [0, 0, 10, 10], priority = Some 1, cost = None,
     labor_hours = None\<rparr>"

definition v_warning :: violation where
  "v_warning = \<lparr>vtype = ''Detectable Warning'', severity = High, location = ''Curb ramp'',
     reference = ''ADAAG 705'', bbox = [0, 0, 10, 10], priority = Some 1, cost = Some 800,
     labor_hours = None\<rparr>"

text \<open>A violation of a type that neither cost table knows.\<close>

definition v_graffiti :: violation where
  "v_graffiti = \<lparr>vtype = ''Graffiti'', severity = Low, location = ''Surface'',
     reference = ''local code'', bbox = [0, 0, 10, 10], priority = Some 3, cost = Some 1000,
     labor_hours = None\<rparr>"

definition v_landing :: violation where
  "v_landing = \<lparr>vtype = ''Landing Size'', severity = Medium, location = ''Curb ramp landing'',
     reference = ''ADAAG 406.4'', bbox = [0, 0, 10, 10], priority = Some 2, cost = Some 1500,
     labor_hours = None\<rparr>"

text \<open>Two violations without a priority, of equal severity and type, at different places.\<close>

definition v_gap_a :: violation where
  "v_gap_a = \<lparr>vtype = ''Surface Quality'', severity = Medium, location = ''Surface'',
     reference = ''ADAAG 302.3'', bbox = [0, 0, 10, 10], priority = None, cost = None,
     labor_hours = None\<rparr>"

definition v_gap_b :: violation where
  "v_gap_b = \<lparr>vtype = ''Surface Quality'', severity = Medium, location = ''Surface'',
     reference = ''ADAAG 302.3'', bbox = [20, 20, 30, 30], priority = None, cost = None,
     labor_hours = None\<rparr>"

text \<open>Detections as the detector builds them, without an \<open>id\<close> key.\<close>

definition d_ramp :: detection where
  "d_ramp = \<lparr>det_key = None, identity = 1, class_name = ''Curb Ramp'', confidence = 9 / 10,
     det_bbox = [0, 0, 10, 10]\<rparr>"

definition d_sidewalk :: detection where
  "d_sidewalk = \<lparr>det_key = None, identity = 2, class_name = ''sidewalk'', confidence = 9 / 10,
     det_bbox = [0, 0, 10, 10]\<rparr>"

definition d_crosswalk :: detection where
  "d_crosswalk = \<lparr>det_key = None, identity = 3, class_name = ''crosswalk'',
     confidence = 9 / 10, det_bbox = [0, 0, 10, 10]\<rparr>"

text \<open>Every measurement kind present, none with an entry.\<close>

definition m_empty :: measurements where
  "m_empty = \<lparr>slope = Some Map.empty, cross_slope = Some Map.empty, width = Some Map.empty,
     detectable_warning = Some Map.empty, landing_size = Some Map.empty,
     max_gap = Some Map.empty, vertical_change = Some Map.empty,
     has_curb_ramps = Some Map.empty, marking_quality = Some Map.empty\<rparr>"

text \<open>Width measurements for the sidewalk detection: negative, and 30 inches.\<close>

definition m_negative_width :: measurements where
  "m_negative_width = m_empty\<lparr>width := Some [2 \<mapsto> - 5]\<rparr>"

definition m_narrow :: measurements where
  "m_narrow = m_empty\<lparr>width := Some [2 \<mapsto> 30]\<rparr>"

section \<open>Evaluating float arithmetic\<close>

lemma floor_rat_numeral:
  "\<lfloor>(numeral a / numeral b :: rat)\<rfloor> = numeral a div numeral b"
  using floor_divide_of_int_eq [of "numeral a" "numeral b", where ?'a = rat] by simp

lemma binade_step:
  "binade (numeral k) a e =
     (if a < 4503599627370496 then binade (numeral k - 1) (a * 2) (e - 1)
      else if 9007199254740992 \<le> a then binade (numeral k - 1) (a / 2) (e + 1)
      else (a, e))"
  by (subst binade.simps) simp

lemmas fl_eval = floor_rat_numeral binade_step fl_def pow2_def round_half_even_def
  py_int_def float_of_int_def fmul_def fdiv_def int_truediv_def Let_def

lemma fl_zero [simp]: "fl 0 = 0"
  by (simp add: fl_def)

lemma fl_one [simp]: "fl 1 = 1"
  by (simp add: fl_eval)

section \<open>The estimate of an empty list\<close>

text \<open>
  Claim C5. \<open>estimate\<close> applied to the empty list is meant to return a zero-valued
  estimate with \<open>total_cost = 0\<close>, \<open>contingency = 0\<close>, timeline \<open>N/A\<close> and an empty
  breakdown. The early return writes \<open>total_cost\<close>, \<open>timeline\<close>, \<open>breakdown\<close> and
  \<open>labor_hours\<close> only: the dict has no \<open>contingency\<close> and no \<open>total_with_contingency\<close>
  key, and \<open>generate_cost_summary\<close>, which subscripts the latter, raises \<open>KeyError\<close> on
  the empty list.
\<close>

theorem estimate_empty_lacks_contingency:
  "estimate [] complexity =
     (\<lparr>total_cost = 0, contingency = None, total_with_contingency = None,
       timeline = ''N/A'', breakdown = [], total_labor_hours = 0,
       complexity_factor = None\<rparr>, [])
   \<and> generate_cost_summary [] = Inl (KeyError ''total_with_contingency'')"
  by (simp add: estimate_def generate_cost_summary_def)

section \<open>Phased plans\<close>

text \<open>
  What the loop does with its input, for every list and every budget: the violations it
  puts into phases are the sorted input without its leading violations that cost more
  than the whole budget, and the phase costs add up to the costs of exactly those.
\<close>

lemma phase_step_open:
  assumes "ph_violations cur \<noteq> []"
  shows "placed (phase_step b (phs, cur, r) v) = placed (phs, cur, r) @ [v]
     \<and> ph_violations (fst (snd (phase_step b (phs, cur, r) v))) \<noteq> []"
  using assms by (simp add: placed_def Let_def)

lemma phase_fold_open:
  assumes "ph_violations cur \<noteq> []"
  shows "placed (foldl (phase_step b) (phs, cur, r) vs) = placed (phs, cur, r) @ vs"
  using assms
proof (induction vs arbitrary: phs cur r)
  case Nil
  show ?case by simp
next
  case (Cons v vs)
  obtain p1 c1 r1 where st: "phase_step b (phs, cur, r) v = (p1, c1, r1)"
    by (cases "phase_step b (phs, cur, r) v") auto
  from phase_step_open [OF Cons.prems, of b phs r v]
  have a: "placed (p1, c1, r1) = placed (phs, cur, r) @ [v]" and n: "ph_violations c1 \<noteq> []"
    unfolding st by simp_all
  have "foldl (phase_step b) (phs, cur, r) (v # vs) = foldl (phase_step b) (p1, c1, r1) vs"
    by (simp only: foldl_Cons st)
  then show ?case
    using Cons.IH [OF n, of p1 r1] a by (simp only: append_assoc append_Cons append_Nil)
qed

lemma phase_fold_start:
  "placed (foldl (phase_step b)
      ([], \<lparr>ph_violations = [], ph_cost = 0, phase_number = 1\<rparr>, b) vs)
   = dropWhile (\<lambda>v. b < get_cost v) vs"
proof (induction vs)
  case Nil
  show ?case by (simp add: placed_def)
next
  case (Cons v vs)
  show ?case
  proof (cases "b < get_cost v")
    case True
    then show ?thesis using Cons.IH by simp
  next
    case False
    let ?opened = "\<lparr>ph_violations = [v], ph_cost = get_cost v, phase_number = 1\<rparr>"
    from False have eq: "foldl (phase_step b)
        ([], \<lparr>ph_violations = [], ph_cost = 0, phase_number = 1\<rparr>, b) (v # vs)
      = foldl (phase_step b) ([], ?opened, b - get_cost v) vs"
      by (simp add: Let_def)
    have ne: "ph_violations ?opened \<noteq> []" by simp
    have "placed (foldl (phase_step b)
        ([], \<lparr>ph_violations = [], ph_cost = 0, phase_number = 1\<rparr>, b) (v # vs))
      = placed ([], ?opened, b - get_cost v) @ vs"
      unfolding eq by (rule phase_fold_open [OF ne])
    also have "\<dots> = v # vs" by (simp add: placed_def)
    finally show ?thesis using False by simp
  qed
qed

lemma phase_step_costs:
  "costs_add_up st \<Longrightarrow> costs_add_up (phase_step b st v)"
  by (cases st) (auto simp: costs_add_up_def Let_def)

lemma phase_fold_costs:
  "costs_add_up st \<Longrightarrow> costs_add_up (foldl (phase_step b) st vs)"
  by (induction vs arbitrary: st) (simp_all add: phase_step_costs)

lemma sum_phase_costs:
  assumes "list_all (\<lambda>ph. ph_cost ph = sum_list (map get_cost (ph_violations ph))) phs"
  shows "sum_list (map ph_cost phs) = sum_list (map get_cost (concat (map ph_violations phs)))"
  using assms by (induction phs) simp_all

lemma phased_accounting:
  assumes "estimate_phased_approach vs b = Inr plan"
  shows "concat (map ph_violations (phases plan))
           = dropWhile (\<lambda>v. b < get_cost v) (sort_key phase_key vs)"
    and "sum_list (map ph_cost (phases plan))
           = sum_list (map get_cost (dropWhile (\<lambda>v. b < get_cost v) (sort_key phase_key vs)))"
proof -
  let ?init = "([], \<lparr>ph_violations = [], ph_cost = 0, phase_number = 1\<rparr>, b) :: phase_state"
  obtain phs cur r where f: "foldl (phase_step b) ?init (sort_key phase_key vs) = (phs, cur, r)"
    by (metis prod_cases3)
  have pl: "plan = \<lparr>phases = (if ph_violations cur \<noteq> [] then phs @ [cur] else phs),
       total_phases = int (length (if ph_violations cur \<noteq> [] then phs @ [cur] else phs)),
       fully_funded = (0 \<le> r)\<rparr>"
    using assms by (simp add: estimate_phased_approach_def f Let_def)
  have p: "placed (phs, cur, r) = dropWhile (\<lambda>v. b < get_cost v) (sort_key phase_key vs)"
    using phase_fold_start [of b "sort_key phase_key vs"] by (simp add: f)
  have "costs_add_up ?init" by (simp add: costs_add_up_def)
  then have "costs_add_up (phs, cur, r)"
    using phase_fold_costs [of ?init b "sort_key phase_key vs"] by (simp add: f)
  then have c: "list_all (\<lambda>ph. ph_cost ph = sum_list (map get_cost (ph_violations ph)))
                  (phases plan)"
    by (auto simp: costs_add_up_def pl)
  show 1: "concat (map ph_violations (phases plan))
           = dropWhile (\<lambda>v. b < get_cost v) (sort_key phase_key vs)"
    using p by (auto simp: placed_def pl)
  show "sum_list (map ph_cost (phases plan))
           = sum_list (map get_cost (dropWhile (\<lambda>v. b < get_cost v) (sort_key phase_key vs)))"
    using sum_phase_costs [OF c] 1 by simp
qed

lemma phased_partition_when_affordable:
  assumes "estimate_phased_approach vs b = Inr plan" and "\<forall>v\<in>set vs. get_cost v \<le> b"
  shows "mset (concat (map ph_violations (phases plan))) = mset vs"
    and "sum_list (map ph_cost (phases plan)) = sum_list (map get_cost vs)"
proof -
  have "\<forall>v\<in>set (sort_key phase_key vs). \<not> b < get_cost v"
    using assms(2) by auto
  then have keep: "dropWhile (\<lambda>v. b < get_cost v) (sort_key phase_key vs) = sort_key phase_key vs"
    by (cases "sort_key phase_key vs") simp_all
  show "mset (concat (map ph_violations (phases plan))) = mset vs"
    unfolding phased_accounting(1) [OF assms(1)] keep by simp
  have "sum_list (map get_cost (sort_key phase_key vs)) = sum_mset (image_mset get_cost (mset vs))"
    by (metis mset_map mset_sort sum_mset_sum_list)
  also have "\<dots> = sum_list (map get_cost vs)"
    by (metis mset_map sum_mset_sum_list)
  finally show "sum_list (map ph_cost (phases plan)) = sum_list (map get_cost vs)"
    unfolding phased_accounting(2) [OF assms(1)] keep .
qed

text \<open>
  Claim C1. The phases are meant to partition the input, the phase costs adding up to
  the violation costs. A violation that costs more than the whole budget, met while the
  current phase is still empty, is put in no phase: with a budget of 1000 the single
  violation of cost 1500 is lost, the plan has no phase, and it still reports
  \<open>fully_funded\<close>. The same violation, met after a cheaper one of higher priority, does
  open a phase of its own.
\<close>

theorem phased_loses_unaffordable_violation:
  "estimate_phased_approach [v_landing] 1000 =
     Inr \<lparr>phases = [], total_phases = 0, fully_funded = True\<rparr>
   \<and> get_cost v_landing = 1500
   \<and> estimate_phased_approach [v_warning, v_landing] 1000 =
     Inr \<lparr>phases = [\<lparr>ph_violations = [v_warning], ph_cost = 800, phase_number = 1\<rparr>,
                    \<lparr>ph_violations = [v_landing], ph_cost = 1500, phase_number = 2\<rparr>],
          total_phases = 2, fully_funded = False\<rparr>"
  by (simp add: estimate_phased_approach_def v_landing_def v_warning_def get_cost_def
      phase_key_def less_eq_prod_def less_prod_def)

lemma phase_fold_nonempty:
  "\<forall>ph\<in>set phs. ph_violations ph \<noteq> [] \<Longrightarrow>
   foldl (phase_step b) (phs, cur, r) vs = (phs', cur', r') \<Longrightarrow>
   \<forall>ph\<in>set phs'. ph_violations ph \<noteq> []"
proof (induction vs arbitrary: phs cur r)
  case Nil
  then show ?case by simp
next
  case (Cons v vs)
  obtain p1 c1 r1 where st: "phase_step b (phs, cur, r) v = (p1, c1, r1)"
    by (cases "phase_step b (phs, cur, r) v") auto
  have "\<forall>ph\<in>set p1. ph_violations ph \<noteq> []"
    using st Cons.prems(1) by (auto simp: Let_def split: if_splits)
  moreover have "foldl (phase_step b) (p1, c1, r1) vs = (phs', cur', r')"
    using Cons.prems(2) st by simp
  ultimately show ?case by (rule Cons.IH)
qed

text \<open>
  Claim C6, as stated: a budget \<open>\<le> 0\<close> is rejected with a descriptive failure. The
  function has no check of its budget and no failure path; with budget 0 it returns a
  plan.
\<close>

theorem phased_zero_budget_accepted:
  "estimate_phased_approach [v_ramps] 0 =
     Inr \<lparr>phases = [], total_phases = 0, fully_funded = True\<rparr>"
  by (simp add: estimate_phased_approach_def v_ramps_def get_cost_def)

text \<open>
  Claim C6, amended: for every list of violations and every budget, a budget \<open>\<le> 0\<close>
  included, \<open>estimate_phased_approach\<close> returns a plan and never fails; \<open>total_phases\<close>
  is the number of phases of that plan and no phase of it is empty.
\<close>

theorem phased_never_rejects:
  "\<exists>plan. estimate_phased_approach vs b = Inr plan
      \<and> total_phases plan = int (length (phases plan))
      \<and> (\<forall>ph\<in>set (phases plan). ph_violations ph \<noteq> [])"
proof -
  obtain phs cur r where f:
    "foldl (phase_step b) ([], \<lparr>ph_violations = [], ph_cost = 0, phase_number = 1\<rparr>, b)
       (sort_key phase_key vs) = (phs, cur, r)"
    by (metis prod_cases3)
  have ne: "\<forall>ph\<in>set phs. ph_violations ph \<noteq> []"
    using phase_fold_nonempty [OF _ f] by simp
  show ?thesis
    using ne by (simp add: estimate_phased_approach_def f Let_def)
qed

theorem phased_never_rejects_witness:
  "estimate_phased_approach [v_unpriced] 0 =
     Inr \<lparr>phases = [\<lparr>ph_violations = [v_unpriced], ph_cost = 0, phase_number = 1\<rparr>],
          total_phases = 1, fully_funded = True\<rparr>
   \<and> (\<exists>plan. estimate_phased_approach [v_unpriced] 0 = Inr plan
         \<and> total_phases plan = int (length (phases plan))
         \<and> (\<forall>ph\<in>set (phases plan). ph_violations ph \<noteq> []))"
  using phased_never_rejects [of "[v_unpriced]" 0]
  by (simp add: estimate_phased_approach_def v_unpriced_def get_cost_def)

section \<open>The estimate of a non-empty list\<close>

lemma estimate_step_closed:
  "estimate_step mu (bd, tot, labor, seen) v =
     (bd @ (if known_type v then [breakdown_entry mu v] else []),
      tot + unit_cost mu v, labor + unit_labor v, seen @ [priced mu v])"
  by (simp add: known_type_def breakdown_entry_def unit_cost_def unit_labor_def priced_def
      Let_def split: option.splits)

lemma estimate_fold:
  "foldl (estimate_step mu) (bd, tot, labor, seen) vs =
     (bd @ map (breakdown_entry mu) (filter known_type vs),
      tot + sum_list (map (unit_cost mu) vs),
      labor + sum_list (map unit_labor vs),
      seen @ map (priced mu) vs)"
proof (induction vs arbitrary: bd tot labor seen)
  case Nil
  show ?case by simp
next
  case (Cons v vs)
  show ?case
    unfolding foldl_Cons estimate_step_closed Cons.IH by simp
qed

lemma estimate_nonempty:
  assumes "vs \<noteq> []"
  shows "estimate vs c =
     (\<lparr>total_cost = sum_list (map (unit_cost (get_multiplier c)) vs),
       contingency = Some (py_int (fmul (float_of_int (sum_list (map (unit_cost (get_multiplier c)) vs)))
                                        (fl (12 / 100)))),
       total_with_contingency =
          Some (sum_list (map (unit_cost (get_multiplier c)) vs)
                + py_int (fmul (float_of_int (sum_list (map (unit_cost (get_multiplier c)) vs)))
                               (fl (12 / 100)))),
       timeline = estimate_timeline (sum_list (map unit_labor vs)) (length vs),
       breakdown = map (breakdown_entry (get_multiplier c)) (filter known_type vs),
       total_labor_hours = sum_list (map unit_labor vs),
       complexity_factor = Some (get_multiplier c)\<rparr>,
      map (priced (get_multiplier c)) vs)"
  using assms by (simp add: estimate_def estimate_fold Let_def)

lemma breakdown_cost_sum:
  "sum_list (map (unit_cost mu) vs) =
     sum_list (map b_cost (map (breakdown_entry mu) (filter known_type vs)))
     + 1000 * int (length (filter (\<lambda>v. \<not> known_type v) vs))"
  by (induction vs) (auto simp: breakdown_entry_def known_type_def unit_cost_def)

lemma breakdown_labor_sum:
  "sum_list (map unit_labor vs) =
     sum_list (map b_labor_hours (map (breakdown_entry mu) (filter known_type vs)))
     + 8 * int (length (filter (\<lambda>v. \<not> known_type v) vs))"
  by (induction vs) (auto simp: breakdown_entry_def known_type_def unit_labor_def)

lemma estimate_totals:
  "total_cost (fst (estimate vs c)) =
      sum_list (map b_cost (breakdown (fst (estimate vs c))))
      + 1000 * int (length (filter (\<lambda>v. BASE_COSTS (vtype v) = None) vs))"
  "total_labor_hours (fst (estimate vs c)) =
      sum_list (map b_labor_hours (breakdown (fst (estimate vs c))))
      + 8 * int (length (filter (\<lambda>v. BASE_COSTS (vtype v) = None) vs))"
  "map b_type (breakdown (fst (estimate vs c))) =
      map vtype (filter (\<lambda>v. BASE_COSTS (vtype v) \<noteq> None) vs)"
proof -
  have k: "(\<lambda>v. BASE_COSTS (vtype v) = None) = (\<lambda>v. \<not> known_type v)"
    "(\<lambda>v. BASE_COSTS (vtype v) \<noteq> None) = known_type"
    by (auto simp: known_type_def)
  show "total_cost (fst (estimate vs c)) =
      sum_list (map b_cost (breakdown (fst (estimate vs c))))
      + 1000 * int (length (filter (\<lambda>v. BASE_COSTS (vtype v) = None) vs))"
  proof (cases "vs = []")
    case True then show ?thesis by (simp add: estimate_def)
  next
    case False then show ?thesis
      unfolding k estimate_nonempty [OF False] using breakdown_cost_sum [of "get_multiplier c" vs]
      by simp
  qed
  show "total_labor_hours (fst (estimate vs c)) =
      sum_list (map b_labor_hours (breakdown (fst (estimate vs c))))
      + 8 * int (length (filter (\<lambda>v. BASE_COSTS (vtype v) = None) vs))"
  proof (cases "vs = []")
    case True then show ?thesis by (simp add: estimate_def)
  next
    case False then show ?thesis
      unfolding k estimate_nonempty [OF False]
      using breakdown_labor_sum [of vs "get_multiplier c"] by simp
  qed
  show "map b_type (breakdown (fst (estimate vs c))) =
      map vtype (filter (\<lambda>v. BASE_COSTS (vtype v) \<noteq> None) vs)"
  proof (cases "vs = []")
    case True then show ?thesis by (simp add: estimate_def)
  next
    case False then show ?thesis
      unfolding k estimate_nonempty [OF False] by (simp add: breakdown_entry_def comp_def)
  qed
qed

text \<open>
  Claim C10. A violation whose type is not in the base-cost table adds the default cost
  1000 and the default 8 labor hours to the totals and gets no breakdown entry: the total
  cost is the sum of the breakdown costs plus 1000 per unknown violation, the labor hours
  likewise with 8, and the breakdown lists exactly the violations of known type, in
  order. So the breakdown costs add up to the total exactly when every type is known, and
  to strictly less otherwise. (For the empty list both sides are 0.)
\<close>

theorem unknown_types_priced_outside_breakdown:
  "total_cost (fst (estimate vs c)) =
      sum_list (map b_cost (breakdown (fst (estimate vs c))))
      + 1000 * int (length (filter (\<lambda>v. BASE_COSTS (vtype v) = None) vs))
   \<and> total_labor_hours (fst (estimate vs c)) =
      sum_list (map b_labor_hours (breakdown (fst (estimate vs c))))
      + 8 * int (length (filter (\<lambda>v. BASE_COSTS (vtype v) = None) vs))
   \<and> map b_type (breakdown (fst (estimate vs c))) =
      map vtype (filter (\<lambda>v. BASE_COSTS (vtype v) \<noteq> None) vs)
   \<and> (if \<forall>v\<in>set vs. BASE_COSTS (vtype v) \<noteq> None
       then sum_list (map b_cost (breakdown (fst (estimate vs c)))) = total_cost (fst (estimate vs c))
       else sum_list (map b_cost (breakdown (fst (estimate vs c)))) < total_cost (fst (estimate vs c)))"
proof -
  have len: "(\<forall>v\<in>set vs. BASE_COSTS (vtype v) \<noteq> None) \<longleftrightarrow>
             length (filter (\<lambda>v. BASE_COSTS (vtype v) = None) vs) = 0"
    by (auto simp: filter_empty_conv)
  show ?thesis
    using estimate_totals [of vs c] len by (auto simp del: length_0_conv)
qed


subsection \<open>Adjusted costs and contingency\<close>

lemma typical_values:
  assumes "BASE_COSTS t = Some info"
  shows "typical info \<in> {2500, 3200, 1800, 800, 2200, 1500, 3500, 400, 1200}"
proof -
  have "(t, info) \<in> set
     [(''Curb Ramp Slope'',
         \<lparr>ci_min = 2000, ci_max = 3500, typical = 2500, unit = ''per ramp'', ci_labor_hours = 16\<rparr>),
      (''Cross Slope'',
         \<lparr>ci_min = 2500, ci_max = 4000, typical = 3200, unit = ''per section'', ci_labor_hours = 20\<rparr>),
      (''Sidewalk Width'',
         \<lparr>ci_min = 1500, ci_max = 2500, typical = 1800, unit = ''per linear foot'', ci_labor_hours = 12\<rparr>),
      (''Detectable Warning'',
         \<lparr>ci_min = 600, ci_max = 1200, typical = 800, unit = ''per installation'', ci_labor_hours = 4\<rparr>),
      (''Surface Quality'',
         \<lparr>ci_min = 1800, ci_max = 3000, typical = 2200, unit = ''per section'', ci_labor_hours = 14\<rparr>),
      (''Landing Size'',
         \<lparr>ci_min = 1200, ci_max = 2000, typical = 1500, unit = ''per landing'', ci_labor_hours = 10\<rparr>),
      (''Missing Curb Ramps'',
         \<lparr>ci_min = 3000, ci_max = 4500, typical = 3500, unit = ''per ramp'', ci_labor_hours = 24\<rparr>),
      (''Crosswalk Markings'',
         \<lparr>ci_min = 300, ci_max = 600, typical = 400, unit = ''per crossing'', ci_labor_hours = 2\<rparr>),
      (''Trip Hazard'',
         \<lparr>ci_min = 800, ci_max = 1800, typical = 1200, unit = ''per repair'', ci_labor_hours = 8\<rparr>)]"
    using assms unfolding BASE_COSTS_def by (rule map_of_SomeD)
  then show ?thesis by auto
qed

lemma multiplier_values:
  "(get_multiplier c, decimal_factor c) \<in>
     {(fl (13 / 10), 13 / 10), (fl (15 / 10), 15 / 10), (fl (14 / 10), 14 / 10),
      (fl (12 / 10), 12 / 10), (fl 1, 1)}"
  by (simp add: get_multiplier_def decimal_factor_def COMPLEXITY_FACTORS_def)

lemma product_exact_13: "b \<in> {2500, 3200, 1800, 800, 2200, 1500, 3500, 400, 1200} \<Longrightarrow>
    py_int (fmul (float_of_int b) (fl (13 / 10))) = round (of_int b * (13 / 10) :: rat)"
  by (elim insertE emptyE; hypsubst; simp add: fl_eval round_def)

lemma product_exact_15: "b \<in> {2500, 3200, 1800, 800, 2200, 1500, 3500, 400, 1200} \<Longrightarrow>
    py_int (fmul (float_of_int b) (fl (15 / 10))) = round (of_int b * (15 / 10) :: rat)"
  by (elim insertE emptyE; hypsubst; simp add: fl_eval round_def)

lemma product_exact_14: "b \<in> {2500, 3200, 1800, 800, 2200, 1500, 3500, 400, 1200} \<Longrightarrow>
    py_int (fmul (float_of_int b) (fl (14 / 10))) = round (of_int b * (14 / 10) :: rat)"
  by (elim insertE emptyE; hypsubst; simp add: fl_eval round_def)

lemma product_exact_12: "b \<in> {2500, 3200, 1800, 800, 2200, 1500, 3500, 400, 1200} \<Longrightarrow>
    py_int (fmul (float_of_int b) (fl (12 / 10))) = round (of_int b * (12 / 10) :: rat)"
  by (elim insertE emptyE; hypsubst; simp add: fl_eval round_def)

lemma product_exact_1: "b \<in> {2500, 3200, 1800, 800, 2200, 1500, 3500, 400, 1200} \<Longrightarrow>
    py_int (fmul (float_of_int b) (fl 1)) = round (of_int b * 1 :: rat)"
  by (elim insertE emptyE; hypsubst; simp add: fl_eval round_def)

lemma adjusted_cost_exact:
  assumes "BASE_COSTS t = Some info"
  shows "py_int (fmul (float_of_int (typical info)) (get_multiplier c))
           = round (of_int (typical info) * decimal_factor c)"
proof -
  note tv = typical_values [OF assms]
  from multiplier_values [of c] consider
      "get_multiplier c = fl (13 / 10)" "decimal_factor c = 13 / 10"
    | "get_multiplier c = fl (15 / 10)" "decimal_factor c = 15 / 10"
    | "get_multiplier c = fl (14 / 10)" "decimal_factor c = 14 / 10"
    | "get_multiplier c = fl (12 / 10)" "decimal_factor c = 12 / 10"
    | "get_multiplier c = fl 1" "decimal_factor c = 1"
    by auto
  then show ?thesis
  proof cases
    case 1 show ?thesis unfolding 1 by (rule product_exact_13 [OF tv])
  next
    case 2 show ?thesis unfolding 2 by (rule product_exact_15 [OF tv])
  next
    case 3 show ?thesis unfolding 3 by (rule product_exact_14 [OF tv])
  next
    case 4 show ?thesis unfolding 4 by (rule product_exact_12 [OF tv])
  next
    case 5 show ?thesis unfolding 5 by (rule product_exact_1 [OF tv])
  qed
qed


lemmas estimate_eval = estimate_nonempty unit_cost_def unit_labor_def priced_def known_type_def
  breakdown_entry_def BASE_COSTS_def get_multiplier_def COMPLEXITY_FACTORS_def

text \<open>
  Claim C4, as stated: \<open>contingency = round(total_cost \<times> 0.12)\<close>. The code computes
  \<open>int(total_cost * 0.12)\<close>, which truncates. One Detectable Warning violation under
  \<open>urban_high_traffic\<close> costs \<open>int(800 * 1.3) = 1040\<close>; \<open>1040 * 0.12\<close> is 124.8, the
  code returns 124 and the rounding of the specification is 125.
\<close>

theorem contingency_truncated_not_rounded:
  "total_cost (fst (estimate [v_warning] ''urban_high_traffic'')) = 1040
   \<and> contingency (fst (estimate [v_warning] ''urban_high_traffic'')) = Some 124
   \<and> spec_contingency 1040 = 125"
  by (simp add: estimate_eval v_warning_def fl_eval spec_contingency_def round_def)

text \<open>
  Claim C4, amended: for every non-empty list of violations and every complexity key,
  unrecognized keys included (multiplier 1.0), the contingency is
  \<open>int(total_cost * 0.12)\<close>, the double product truncated toward zero, and
  \<open>total_with_contingency = total_cost + contingency\<close>; the cost written into each
  violation of known type, and into its breakdown entry, is
  \<open>round(base_typical_cost \<times> multiplier)\<close>: for every entry of the base-cost table and
  every multiplier the double product is that exact integer.
\<close>

theorem estimate_contingency_truncates:
  assumes "vs \<noteq> []"
  shows "contingency (fst (estimate vs c)) =
           Some (py_int (fmul (float_of_int (total_cost (fst (estimate vs c)))) (fl (12 / 100))))
   \<and> total_with_contingency (fst (estimate vs c)) =
           Some (total_cost (fst (estimate vs c))
                 + py_int (fmul (float_of_int (total_cost (fst (estimate vs c)))) (fl (12 / 100))))
   \<and> length (snd (estimate vs c)) = length vs
   \<and> (\<forall>i<length vs. \<forall>info. BASE_COSTS (vtype (vs ! i)) = Some info \<longrightarrow>
          cost (snd (estimate vs c) ! i) = Some (round (of_int (typical info) * decimal_factor c)))
   \<and> (\<forall>b\<in>set (breakdown (fst (estimate vs c))). \<exists>info.
          BASE_COSTS (b_type b) = Some info
          \<and> b_cost b = round (of_int (typical info) * decimal_factor c))"
proof -
  have viol: "cost (snd (estimate vs c) ! i) = Some (round (of_int (typical info) * decimal_factor c))"
    if "i < length vs" "BASE_COSTS (vtype (vs ! i)) = Some info" for i info
    using that adjusted_cost_exact [OF that(2), of c]
    by (simp add: estimate_nonempty [OF assms] priced_def unit_cost_def)
  have bd: "\<exists>info. BASE_COSTS (b_type b) = Some info
          \<and> b_cost b = round (of_int (typical info) * decimal_factor c)"
    if "b \<in> set (breakdown (fst (estimate vs c)))" for b
  proof -
    from that obtain v where v: "known_type v" "b = breakdown_entry (get_multiplier c) v"
      by (auto simp: estimate_nonempty [OF assms])
    from v(1) obtain info where i: "BASE_COSTS (vtype v) = Some info"
      by (auto simp: known_type_def)
    show ?thesis
      using adjusted_cost_exact [OF i, of c] i v(2)
      by (simp add: breakdown_entry_def unit_cost_def)
  qed
  show ?thesis
    using viol bd by (simp add: estimate_nonempty [OF assms])
qed


lemmas timeline_eval = estimate_timeline_def show_int_def show_nat.simps

lemma estimate_warning_urban:
  "estimate [v_warning] ''urban_high_traffic'' =
     (\<lparr>total_cost = 1040, contingency = Some 124, total_with_contingency = Some 1164,
       timeline = ''0 days'',
       breakdown = [\<lparr>b_type = ''Detectable Warning'', b_cost = 1040,
                     b_unit = ''per installation'', b_labor_hours = 4, b_priority = 1\<rparr>],
       total_labor_hours = 4,
       complexity_factor = Some (5854679515581645 / 4503599627370496)\<rparr>,
      [v_warning\<lparr>cost := Some 1040, labor_hours := Some 4\<rparr>])"
  by (simp add: estimate_eval v_warning_def fl_eval timeline_eval)

theorem estimate_contingency_truncates_witness:
  "[v_warning] \<noteq> []
   \<and> total_cost (fst (estimate [v_warning] ''urban_high_traffic'')) = 1040
   \<and> contingency (fst (estimate [v_warning] ''urban_high_traffic'')) = Some 124
   \<and> total_with_contingency (fst (estimate [v_warning] ''urban_high_traffic'')) = Some 1164
   \<and> cost (snd (estimate [v_warning] ''urban_high_traffic'') ! 0) = Some 1040
   \<and> map b_cost (breakdown (fst (estimate [v_warning] ''urban_high_traffic''))) = [1040]"
  using estimate_contingency_truncates [of "[v_warning]" "''urban_high_traffic''"]
  unfolding estimate_warning_urban by simp

lemma estimate_warning_graffiti:
  "estimate [v_warning, v_graffiti] ''standard'' =
     (\<lparr>total_cost = 1800, contingency = Some 216, total_with_contingency = Some 2016,
       timeline = ''0 days'',
       breakdown = [\<lparr>b_type = ''Detectable Warning'', b_cost = 800,
                     b_unit = ''per installation'', b_labor_hours = 4, b_priority = 1\<rparr>],
       total_labor_hours = 12,
       complexity_factor = Some 1\<rparr>,
      [v_warning\<lparr>cost := Some 800, labor_hours := Some 4\<rparr>,
       v_graffiti\<lparr>cost := Some 1000, labor_hours := Some 8\<rparr>])"
  by (simp add: estimate_eval v_warning_def v_graffiti_def fl_eval timeline_eval)

theorem unknown_types_priced_outside_breakdown_witness:
  "total_cost (fst (estimate [v_warning, v_graffiti] ''standard'')) = 1800
   \<and> total_labor_hours (fst (estimate [v_warning, v_graffiti] ''standard'')) = 12
   \<and> map b_type (breakdown (fst (estimate [v_warning, v_graffiti] ''standard'')))
       = [''Detectable Warning'']
   \<and> sum_list (map b_cost (breakdown (fst (estimate [v_warning, v_graffiti] ''standard'')))) = 800
   \<and> \<not> (\<forall>v\<in>set [v_warning, v_graffiti]. BASE_COSTS (vtype v) \<noteq> None)"
  using unknown_types_priced_outside_breakdown [of "[v_warning, v_graffiti]" "''standard''"]
  unfolding estimate_warning_graffiti
  by (simp add: BASE_COSTS_def v_warning_def v_graffiti_def)

section \<open>Compliance score\<close>

text \<open>
  Claim C8. For every list of violations and every list of detections the compliance
  score lies in \<open>[0, 100]\<close>; it is 100 when there is no violation, and 100 when there is
  no detection.
\<close>

theorem score_in_range:
  "0 \<le> calculate_compliance_score vs ds \<and> calculate_compliance_score vs ds \<le> 100
   \<and> calculate_compliance_score [] ds = 100
   \<and> calculate_compliance_score vs [] = 100"
  by (simp add: calculate_compliance_score_def Let_def int_truediv_def fmul_def py_int_def)

lemma score_landing_ramp: "calculate_compliance_score [v_landing] [d_ramp] = 34"
  apply (simp add: calculate_compliance_score_def v_landing_def Let_def)
  apply (simp add: int_truediv_def)
  apply (simp add: fl_eval)
  done

lemma spec_score_landing_ramp: "spec_score [v_landing] [d_ramp] = 33"
  by (simp add: spec_score_def v_landing_def round_def floor_rat_numeral)

text \<open>
  Claim C9, as stated: the score is \<open>100 \<minus> round(100 \<times> total_weight /
  max_possible_weight)\<close>, clamped. The code computes
  \<open>100 - int((total_weight / max_possible_weight) * 100)\<close>, which truncates. One detection
  with one Medium violation has weight 2 of 3: \<open>2 / 3 * 100\<close> is 66.67, the code returns
  \<open>100 - 66 = 34\<close>, the formula of the specification \<open>100 - 67 = 33\<close>.
\<close>

theorem score_truncated_not_rounded:
  "calculate_compliance_score [v_landing] [d_ramp] = 34 \<and> spec_score [v_landing] [d_ramp] = 33"
  using score_landing_ramp spec_score_landing_ramp by (rule conjI)

text \<open>
  Claim C9, amended: for every non-empty list of detections and every list of violations
  the score is \<open>100 \<minus> int((total_weight / max_possible_weight) \<times> 100)\<close>, the double
  quotient times 100 truncated toward zero, clamped to \<open>[0, 100]\<close>, where
  \<open>total_weight\<close> is the sum of the severity weights (High 3, Medium 2, Low 1) and
  \<open>max_possible_weight = 3 \<times> count(detections)\<close>.
\<close>

theorem score_truncates:
  assumes "ds \<noteq> []"
  shows "calculate_compliance_score vs ds =
     max 0 (min 100
       (100 - py_int (fmul (int_truediv (sum_list (map (\<lambda>v. severity_weights (severity v)) vs))
                                        (3 * int (length ds)))
                           (float_of_int 100))))"
  using assms by (simp add: calculate_compliance_score_def Let_def mult.commute)

theorem score_truncates_witness:
  "[d_ramp] \<noteq> [] \<and> calculate_compliance_score [v_landing] [d_ramp] = 34
   \<and> max 0 (min 100
       (100 - py_int (fmul (int_truediv (sum_list (map (\<lambda>v. severity_weights (severity v)) [v_landing]))
                                        (3 * int (length [d_ramp])))
                           (float_of_int 100)))) = 34"
  using score_truncates [of "[d_ramp]" "[v_landing]"] score_landing_ramp by simp

section \<open>Prioritizer\<close>

lemma assign_vtype [simp]: "vtype (assign_cost_priority v) = vtype v"
  by (simp add: assign_cost_priority_def Let_def split: option.splits)

lemma assign_priority:
  "priority (assign_cost_priority v) =
     (case priority v of Some p \<Rightarrow> Some p
      | None \<Rightarrow> Some (if severity v = High then 1 else if severity v = Medium then 2 else 3))"
  by (simp add: assign_cost_priority_def Let_def split: option.splits)

lemma assign_cost:
  "cost (assign_cost_priority v) =
     Some (case cost_estimates (vtype v) of Some c \<Rightarrow> c | None \<Rightarrow> 1000)"
  by (simp add: assign_cost_priority_def Let_def split: option.splits)

lemma key_le_iff:
  "priority_key a \<le> priority_key b \<longleftrightarrow>
     the (priority a) < the (priority b)
     \<or> (the (priority a) = the (priority b) \<and> the (cost b) \<le> the (cost a))"
  by (auto simp: priority_key_def less_eq_prod_def)

lemmas sort_eval = prioritize_violations_def assign_cost_priority_def cost_estimates_def
  priority_key_def less_eq_prod_def less_prod_def

lemma prioritize_three:
  "prioritize_violations [v_gap_a, v_warning, v_gap_b] =
     [v_warning\<lparr>cost := Some 800\<rparr>,
      v_gap_a\<lparr>cost := Some 2200, priority := Some 2\<rparr>,
      v_gap_b\<lparr>cost := Some 2200, priority := Some 2\<rparr>]"
  by (simp add: sort_eval v_gap_a_def v_gap_b_def v_warning_def)

section \<open>Rule engine\<close>

lemma verdicts_eq: "verdicts m d = vtype ` set (check_detection m d)"
  by (simp add: verdicts_def evaluate_def prioritize_violations_def image_image)

lemma check_sidewalk_class: "sidewalk_class d \<Longrightarrow> check_detection m d = check_sidewalk d m"
  by (simp add: check_detection_def sidewalk_class_def curb_ramp_class_def Let_def)

lemma check_curb_ramp_class: "curb_ramp_class d \<Longrightarrow> check_detection m d = check_curb_ramp d m"
  by (simp add: check_detection_def curb_ramp_class_def Let_def)

lemma check_crosswalk_class: "crosswalk_class d \<Longrightarrow> check_detection m d = check_crosswalk d m"
  by (auto simp: check_detection_def crosswalk_class_def sidewalk_class_def curb_ramp_class_def Let_def)

lemma classes_of_inputs:
  "curb_ramp_class d_ramp" "sidewalk_class d_sidewalk" "crosswalk_class d_crosswalk"
  by (simp_all add: curb_ramp_class_def sidewalk_class_def crosswalk_class_def
      d_ramp_def d_sidewalk_def d_crosswalk_def lower_def lower_char_def)

subsection \<open>Priorities of the violations the engine builds\<close>

lemma priority_check_curb_ramp:
  "v \<in> set (check_curb_ramp d m) \<Longrightarrow> priority v \<in> {Some 1, Some 2, Some 3}"
  by (auto simp: check_curb_ramp_def new_violation_def Let_def
      split: option.splits if_splits prod.splits)

lemma priority_check_sidewalk:
  "v \<in> set (check_sidewalk d m) \<Longrightarrow> priority v \<in> {Some 1, Some 2, Some 3}"
  by (auto simp: check_sidewalk_def new_violation_def Let_def split: option.splits if_splits)

lemma priority_check_crosswalk:
  "v \<in> set (check_crosswalk d m) \<Longrightarrow> priority v \<in> {Some 1, Some 2, Some 3}"
  by (auto simp: check_crosswalk_def new_violation_def Let_def split: option.splits if_splits)

lemma priority_check_surface_quality:
  "v \<in> set (check_surface_quality d m) \<Longrightarrow> priority v \<in> {Some 1, Some 2, Some 3}"
  by (auto simp: check_surface_quality_def new_violation_def Let_def
      split: option.splits if_splits)

lemma priority_check_detection:
  assumes "v \<in> set (check_detection m d)"
  shows "priority v \<in> {Some 1, Some 2, Some 3}"
proof -
  from assms have "v \<in> set (check_curb_ramp d m) \<or> v \<in> set (check_sidewalk d m)
      \<or> v \<in> set (check_crosswalk d m) \<or> v \<in> set (check_surface_quality d m)"
    unfolding check_detection_def Let_def by (auto split: if_splits)
  then show ?thesis
    using priority_check_curb_ramp priority_check_sidewalk priority_check_crosswalk
      priority_check_surface_quality by blast
qed

lemma prioritize_keeps_range:
  assumes "\<forall>v\<in>set vs. priority v \<in> {None, Some 1, Some 2, Some 3}"
  shows "\<forall>v\<in>set (prioritize_violations vs). priority v \<in> {Some 1, Some 2, Some 3}"
proof
  fix v assume "v \<in> set (prioritize_violations vs)"
  then obtain u where u: "u \<in> set vs" "v = assign_cost_priority u"
    by (auto simp: prioritize_violations_def)
  with assms have "priority u \<in> {None, Some 1, Some 2, Some 3}" by blast
  then show "priority v \<in> {Some 1, Some 2, Some 3}"
    unfolding u(2) assign_priority by (auto split: option.splits)
qed

lemma evaluate_priorities:
  "\<forall>v\<in>set (evaluate m ds). priority v \<in> {Some 1, Some 2, Some 3}"
  unfolding evaluate_def
  by (rule prioritize_keeps_range) (auto dest: priority_check_detection)

text \<open>
  Claim C7. Prioritization is a stable sort by ascending priority, then descending cost
  within the same priority: for every list of violations the output is the list of
  rewritten violations reordered, two violations with equal (priority, cost) keep their
  relative order, and the priorities are non-decreasing along the output. A priority,
  where it is set, is 1, 2 or 3 (the rule engine writes one of these literals into every
  violation it builds, and the prioritizer derives one from the severity where none is
  set): for every such list, and so for every list \<open>evaluate\<close> hands to the
  prioritizer, every priority after prioritization is in \<open>{1, 2, 3}\<close>.
\<close>

theorem prioritize_stable_sort:
  "sorted_wrt (\<lambda>a b. the (priority a) < the (priority b)
                       \<or> (the (priority a) = the (priority b) \<and> the (cost b) \<le> the (cost a)))
           (prioritize_violations vs)
   \<and> mset (prioritize_violations vs) = mset (map assign_cost_priority vs)
   \<and> (\<forall>k. filter (\<lambda>v. priority_key v = k) (prioritize_violations vs)
          = filter (\<lambda>v. priority_key v = k) (map assign_cost_priority vs))
   \<and> sorted (map (\<lambda>v. the (priority v)) (prioritize_violations vs))
   \<and> ((\<forall>v\<in>set vs. priority v \<in> {None, Some 1, Some 2, Some 3}) \<longrightarrow>
        (\<forall>v\<in>set (prioritize_violations vs). priority v \<in> {Some 1, Some 2, Some 3}))
   \<and> evaluate m ds = prioritize_violations (concat (map (check_detection m) ds))
   \<and> (\<forall>v\<in>set (evaluate m ds). priority v \<in> {Some 1, Some 2, Some 3})"
proof -
  let ?out = "prioritize_violations vs"
  have srt: "sorted (map priority_key ?out)"
    by (simp add: prioritize_violations_def)
  then have s1: "sorted_wrt (\<lambda>a b. priority_key a \<le> priority_key b) ?out"
    by (simp add: sorted_wrt_map)
  have ord: "sorted_wrt (\<lambda>a b. the (priority a) < the (priority b)
                       \<or> (the (priority a) = the (priority b) \<and> the (cost b) \<le> the (cost a))) ?out"
    using s1 by (simp add: key_le_iff)
  have ms: "mset ?out = mset (map assign_cost_priority vs)"
    by (simp add: prioritize_violations_def)
  have stable: "filter (\<lambda>v. priority_key v = k) ?out
          = filter (\<lambda>v. priority_key v = k) (map assign_cost_priority vs)" for k
    unfolding prioritize_violations_def by (rule sort_key_stable)
  have mono: "sorted (map (\<lambda>v. the (priority v)) ?out)"
  proof -
    have "sorted_wrt (\<lambda>a b. the (priority a) \<le> the (priority b)) ?out"
      by (rule sorted_wrt_mono_rel [OF _ ord]) auto
    then show ?thesis by (simp add: sorted_wrt_map)
  qed
  have ev: "evaluate m ds = prioritize_violations (concat (map (check_detection m) ds))"
    by (simp add: evaluate_def)
  show ?thesis
    using ord ms stable mono prioritize_keeps_range [of vs] ev evaluate_priorities [of m ds]
    by blast
qed

lemma check_empty_ramp:
  "check_detection m_empty d_ramp =
     [new_violation ''Detectable Warning'' High ''Curb ramp'' ''ADAAG 705'' d_ramp 1]"
  unfolding check_curb_ramp_class [OF classes_of_inputs(1)]
  by (simp add: check_curb_ramp_def m_empty_def over_limit_def lacking_def Let_def)

lemma evaluate_empty_ramp:
  "evaluate m_empty [d_ramp] =
     [\<lparr>vtype = ''Detectable Warning'', severity = High, location = ''Curb ramp'',
       reference = ''ADAAG 705'', bbox = [0, 0, 10, 10], priority = Some 1, cost = Some 800,
       labor_hours = None\<rparr>]"
  apply (simp add: evaluate_def check_empty_ramp)
  apply (simp add: new_violation_def d_ramp_def sort_eval)
  done

theorem prioritize_stable_sort_witness:
  "map priority [v_gap_a, v_warning, v_gap_b] = [None, Some 1, None]
   \<and> prioritize_violations [v_gap_a, v_warning, v_gap_b] =
     [v_warning\<lparr>cost := Some 800\<rparr>,
      v_gap_a\<lparr>cost := Some 2200, priority := Some 2\<rparr>,
      v_gap_b\<lparr>cost := Some 2200, priority := Some 2\<rparr>]
   \<and> sorted (map (\<lambda>v. the (priority v)) (prioritize_violations [v_gap_a, v_warning, v_gap_b]))
   \<and> map priority (prioritize_violations [v_gap_a, v_warning, v_gap_b]) = [Some 1, Some 2, Some 2]
   \<and> map priority (evaluate m_empty [d_ramp]) = [Some 1]"
proof -
  note inst = prioritize_stable_sort [of "[v_gap_a, v_warning, v_gap_b]" m_empty "[d_ramp]"]
  have a: "map priority [v_gap_a, v_warning, v_gap_b] = [None, Some 1, None]"
    by (simp add: v_gap_a_def v_gap_b_def v_warning_def)
  have s: "sorted (map (\<lambda>v. the (priority v))
             (prioritize_violations [v_gap_a, v_warning, v_gap_b]))"
    using inst by blast
  have c: "map priority (prioritize_violations [v_gap_a, v_warning, v_gap_b])
             = [Some 1, Some 2, Some 2]"
    unfolding prioritize_three by (simp add: v_gap_a_def v_gap_b_def v_warning_def)
  have d: "map priority (evaluate m_empty [d_ramp]) = [Some 1]"
    unfolding evaluate_empty_ramp by simp
  from a prioritize_three s c d show ?thesis by (intro conjI)
qed

subsection \<open>Sidewalk width\<close>

lemma sidewalk_width_verdict:
  "''Sidewalk Width'' \<in> vtype ` set (check_sidewalk d m) \<longleftrightarrow>
     (case width m of Some f \<Rightarrow> under_limit f (get_det_id d) MIN_SIDEWALK_WIDTH | None \<Rightarrow> False)"
  by (auto simp: check_sidewalk_def new_violation_def Let_def split: option.splits)

text \<open>
  Claim C3, amended: for every Sidewalk-class detection whose width measurement is
  present with a value \<open>v\<close> other than zero, negative values included, \<open>evaluate\<close> emits
  a Sidewalk Width violation if and only if \<open>v < 36\<close>; equality to the threshold is
  compliant. The engine has no check of the physical range.
\<close>

theorem sidewalk_width_nonzero:
  assumes "sidewalk_class d" "width m = Some f" "f (get_det_id d) = Some v" "v \<noteq> 0"
  shows "''Sidewalk Width'' \<in> verdicts m d \<longleftrightarrow> v < 36"
  using assms
  by (simp add: verdicts_eq check_sidewalk_class sidewalk_width_verdict under_limit_def
      MIN_SIDEWALK_WIDTH_def)

text \<open>
  Claim C3, as stated: a present value outside the physical range, such as a negative
  width, produces no verdict. The test \<open>if width and width < 36\<close> holds for \<open>\<minus>5\<close>, and
  the violation is emitted.
\<close>

theorem negative_width_is_a_violation:
  "sidewalk_class d_sidewalk
   \<and> width m_negative_width = Some [2 \<mapsto> - 5]
   \<and> get_det_id d_sidewalk = 2
   \<and> ''Sidewalk Width'' \<in> verdicts m_negative_width d_sidewalk"
  using classes_of_inputs(2)
  by (simp add: verdicts_eq check_sidewalk_class sidewalk_width_verdict under_limit_def
      MIN_SIDEWALK_WIDTH_def m_negative_width_def m_empty_def get_det_id_def d_sidewalk_def)

theorem sidewalk_width_nonzero_witness:
  "sidewalk_class d_sidewalk \<and> width m_narrow = Some [2 \<mapsto> 30]
   \<and> [2 \<mapsto> 30 :: rat] (get_det_id d_sidewalk) = Some 30 \<and> (30 :: rat) \<noteq> 0
   \<and> ''Sidewalk Width'' \<in> verdicts m_narrow d_sidewalk"
  using sidewalk_width_nonzero [of d_sidewalk m_narrow "[2 \<mapsto> 30]" 30] classes_of_inputs(2)
  by (simp add: m_narrow_def m_empty_def get_det_id_def d_sidewalk_def)

lemma zero_width_is_skipped:
  assumes "sidewalk_class d" "width m = Some f" "f (get_det_id d) = Some 0"
  shows "''Sidewalk Width'' \<notin> verdicts m d"
  using assms
  by (simp add: verdicts_eq check_sidewalk_class sidewalk_width_verdict under_limit_def)

subsection \<open>Measurements without an entry for the detection\<close>

lemma types_curb_ramp:
  "vtype ` set (check_curb_ramp d m) =
     (case slope m of
        Some f \<Rightarrow> if over_limit f (get_det_id d) MAX_CURB_RAMP_SLOPE
                  then {''Curb Ramp Slope''} else {}
      | None \<Rightarrow> {})
     \<union> (case cross_slope m of
          Some f \<Rightarrow> if over_limit f (get_det_id d) MAX_CROSS_SLOPE then {''Cross Slope''} else {}
        | None \<Rightarrow> {})
     \<union> (case detectable_warning m of
          Some f \<Rightarrow> if lacking f (get_det_id d) then {''Detectable Warning''} else {}
        | None \<Rightarrow> {})
     \<union> (case landing_size m of
          Some f \<Rightarrow>
            (case f (get_det_id d) of
               Some (a, b) \<Rightarrow> if a < MIN_LANDING_SIZE \<or> b < MIN_LANDING_SIZE
                              then {''Landing Size''} else {}
             | None \<Rightarrow> {})
        | None \<Rightarrow> {})"
  by (simp add: check_curb_ramp_def new_violation_def Let_def image_Un
      split: option.splits prod.splits)

lemma types_sidewalk:
  "vtype ` set (check_sidewalk d m) =
     (case width m of
        Some f \<Rightarrow> if under_limit f (get_det_id d) MIN_SIDEWALK_WIDTH
                  then {''Sidewalk Width''} else {}
      | None \<Rightarrow> {})
     \<union> (case cross_slope m of
          Some f \<Rightarrow> if over_limit f (get_det_id d) MAX_CROSS_SLOPE then {''Cross Slope''} else {}
        | None \<Rightarrow> {})"
  by (simp add: check_sidewalk_def new_violation_def Let_def image_Un split: option.splits)

lemma types_crosswalk:
  "vtype ` set (check_crosswalk d m) =
     (case has_curb_ramps m of
        Some f \<Rightarrow> if lacking f (get_det_id d) then {''Missing Curb Ramps''} else {}
      | None \<Rightarrow> {})
     \<union> (case marking_quality m of
          Some f \<Rightarrow> if under_limit f (get_det_id d) (fl (6 / 10))
                    then {''Crosswalk Markings''} else {}
        | None \<Rightarrow> {})"
  by (simp add: check_crosswalk_def new_violation_def Let_def image_Un split: option.splits)

lemma types_surface_quality:
  "vtype ` set (check_surface_quality d m) =
     (case max_gap m of
        Some f \<Rightarrow> if over_limit f (get_det_id d) MAX_SURFACE_GAP then {''Surface Quality''} else {}
      | None \<Rightarrow> {})
     \<union> (case vertical_change m of
          Some f \<Rightarrow> if over_limit f (get_det_id d) MAX_VERTICAL_CHANGE then {''Trip Hazard''} else {}
        | None \<Rightarrow> {})"
  by (simp add: check_surface_quality_def new_violation_def Let_def image_Un split: option.splits)

lemma mem_types_curb_ramp:
  "t \<in> vtype ` set (check_curb_ramp d m) \<longleftrightarrow>
     (t = ''Curb Ramp Slope''
        \<and> (\<exists>f. slope m = Some f \<and> over_limit f (get_det_id d) MAX_CURB_RAMP_SLOPE))
     \<or> (t = ''Cross Slope''
        \<and> (\<exists>f. cross_slope m = Some f \<and> over_limit f (get_det_id d) MAX_CROSS_SLOPE))
     \<or> (t = ''Detectable Warning''
        \<and> (\<exists>f. detectable_warning m = Some f \<and> lacking f (get_det_id d)))
     \<or> (t = ''Landing Size''
        \<and> (\<exists>f a b. landing_size m = Some f \<and> f (get_det_id d) = Some (a, b)
              \<and> (a < MIN_LANDING_SIZE \<or> b < MIN_LANDING_SIZE)))"
  unfolding types_curb_ramp by (auto split: option.splits if_splits)

lemma mem_types_sidewalk:
  "t \<in> vtype ` set (check_sidewalk d m) \<longleftrightarrow>
     (t = ''Sidewalk Width''
        \<and> (\<exists>f. width m = Some f \<and> under_limit f (get_det_id d) MIN_SIDEWALK_WIDTH))
     \<or> (t = ''Cross Slope''
        \<and> (\<exists>f. cross_slope m = Some f \<and> over_limit f (get_det_id d) MAX_CROSS_SLOPE))"
  unfolding types_sidewalk by (auto split: option.splits if_splits)

lemma mem_types_crosswalk:
  "t \<in> vtype ` set (check_crosswalk d m) \<longleftrightarrow>
     (t = ''Missing Curb Ramps''
        \<and> (\<exists>f. has_curb_ramps m = Some f \<and> lacking f (get_det_id d)))
     \<or> (t = ''Crosswalk Markings''
        \<and> (\<exists>f. marking_quality m = Some f \<and> under_limit f (get_det_id d) (fl (6 / 10))))"
  unfolding types_crosswalk by (auto split: option.splits if_splits)

lemma mem_types_surface_quality:
  "t \<in> vtype ` set (check_surface_quality d m) \<longleftrightarrow>
     (t = ''Surface Quality''
        \<and> (\<exists>f. max_gap m = Some f \<and> over_limit f (get_det_id d) MAX_SURFACE_GAP))
     \<or> (t = ''Trip Hazard''
        \<and> (\<exists>f. vertical_change m = Some f \<and> over_limit f (get_det_id d) MAX_VERTICAL_CHANGE))"
  unfolding types_surface_quality by (auto split: option.splits if_splits)

lemma verdicts_mem:
  assumes "t \<in> verdicts m d"
  shows "t \<in> vtype ` set (check_curb_ramp d m) \<or> t \<in> vtype ` set (check_sidewalk d m)
     \<or> t \<in> vtype ` set (check_crosswalk d m) \<or> t \<in> vtype ` set (check_surface_quality d m)"
  using assms unfolding verdicts_eq check_detection_def Let_def
  by (auto split: if_splits)

lemmas mem_types = mem_types_curb_ramp mem_types_sidewalk mem_types_crosswalk
  mem_types_surface_quality

lemma absent_not_over_limit: "f i = None \<Longrightarrow> \<not> over_limit f i l"
  by (simp add: over_limit_def)

lemma absent_not_under_limit: "f i = None \<Longrightarrow> \<not> under_limit f i l"
  by (simp add: under_limit_def)

lemma absent_slope:
  assumes "absent_in (slope m) (get_det_id d)"
  shows "''Curb Ramp Slope'' \<notin> verdicts m d"
proof
  assume "''Curb Ramp Slope'' \<in> verdicts m d"
  from verdicts_mem [OF this] obtain f
    where "slope m = Some f" "over_limit f (get_det_id d) MAX_CURB_RAMP_SLOPE"
    unfolding mem_types by auto
  with assms show False
    by (simp add: absent_in_def absent_not_over_limit)
qed

lemma absent_cross_slope:
  assumes "absent_in (cross_slope m) (get_det_id d)"
  shows "''Cross Slope'' \<notin> verdicts m d"
proof
  assume "''Cross Slope'' \<in> verdicts m d"
  from verdicts_mem [OF this] obtain f
    where "cross_slope m = Some f" "over_limit f (get_det_id d) MAX_CROSS_SLOPE"
    unfolding mem_types by auto
  with assms show False
    by (simp add: absent_in_def absent_not_over_limit)
qed

lemma absent_width:
  assumes "absent_in (width m) (get_det_id d)"
  shows "''Sidewalk Width'' \<notin> verdicts m d"
proof
  assume "''Sidewalk Width'' \<in> verdicts m d"
  from verdicts_mem [OF this] obtain f
    where "width m = Some f" "under_limit f (get_det_id d) MIN_SIDEWALK_WIDTH"
    unfolding mem_types by auto
  with assms show False
    by (simp add: absent_in_def absent_not_under_limit)
qed

lemma absent_landing_size:
  assumes "absent_in (landing_size m) (get_det_id d)"
  shows "''Landing Size'' \<notin> verdicts m d"
proof
  assume "''Landing Size'' \<in> verdicts m d"
  from verdicts_mem [OF this] obtain f a b
    where "landing_size m = Some f" "f (get_det_id d) = Some (a, b)"
    unfolding mem_types by auto
  with assms show False
    by (simp add: absent_in_def)
qed

lemma absent_max_gap:
  assumes "absent_in (max_gap m) (get_det_id d)"
  shows "''Surface Quality'' \<notin> verdicts m d"
proof
  assume "''Surface Quality'' \<in> verdicts m d"
  from verdicts_mem [OF this] obtain f
    where "max_gap m = Some f" "over_limit f (get_det_id d) MAX_SURFACE_GAP"
    unfolding mem_types by auto
  with assms show False
    by (simp add: absent_in_def absent_not_over_limit)
qed

lemma absent_vertical_change:
  assumes "absent_in (vertical_change m) (get_det_id d)"
  shows "''Trip Hazard'' \<notin> verdicts m d"
proof
  assume "''Trip Hazard'' \<in> verdicts m d"
  from verdicts_mem [OF this] obtain f
    where "vertical_change m = Some f" "over_limit f (get_det_id d) MAX_VERTICAL_CHANGE"
    unfolding mem_types by auto
  with assms show False
    by (simp add: absent_in_def absent_not_over_limit)
qed

lemma absent_marking_quality:
  assumes "absent_in (marking_quality m) (get_det_id d)"
  shows "''Crosswalk Markings'' \<notin> verdicts m d"
proof
  assume "''Crosswalk Markings'' \<in> verdicts m d"
  from verdicts_mem [OF this] obtain f
    where "marking_quality m = Some f" "under_limit f (get_det_id d) (fl (6 / 10))"
    unfolding mem_types by auto
  with assms show False
    by (simp add: absent_in_def absent_not_under_limit)
qed

lemma absent_detectable_warning:
  "curb_ramp_class d \<Longrightarrow> absent_in (detectable_warning m) (get_det_id d) \<Longrightarrow>
   ''Detectable Warning'' \<in> verdicts m d"
  by (auto simp: verdicts_eq check_curb_ramp_class types_curb_ramp absent_in_def lacking_def
      split: option.splits)

lemma absent_has_curb_ramps:
  "crosswalk_class d \<Longrightarrow> absent_in (has_curb_ramps m) (get_det_id d) \<Longrightarrow>
   ''Missing Curb Ramps'' \<in> verdicts m d"
  by (auto simp: verdicts_eq check_crosswalk_class types_crosswalk absent_in_def lacking_def
      split: option.splits)

text \<open>
  Claim C2, as stated: a detection whose id has no entry in the map of an applicable kind
  gets no verdict for that rule, in particular no Detectable Warning and no Missing Curb
  Ramps violation. The two boolean kinds are read with \<open>.get(det_id, False)\<close> and tested
  with \<open>if not ...\<close>: a missing id counts as \<open>False\<close>, and the violation is emitted.
\<close>

theorem absent_warning_is_a_violation:
  "curb_ramp_class d_ramp
   \<and> absent_in (detectable_warning m_empty) (get_det_id d_ramp)
   \<and> ''Detectable Warning'' \<in> verdicts m_empty d_ramp"
  using classes_of_inputs(1) absent_detectable_warning [of d_ramp m_empty]
  by (simp add: absent_in_def m_empty_def)

text \<open>
  Claim C2, amended: for every detection whose id has no entry in the map of a kind that
  is present, \<open>evaluate\<close> produces no verdict for the rules of the numeric kinds (slope,
  cross slope, width, landing size, maximum gap, vertical change, marking quality); for
  the two boolean kinds the missing entry is read as \<open>False\<close>, so a curb-ramp-class
  detection gets a Detectable Warning violation and a crosswalk-class detection a Missing
  Curb Ramps violation.
\<close>

theorem absent_measurement_verdicts:
  "(absent_in (slope m) (get_det_id d) \<longrightarrow> ''Curb Ramp Slope'' \<notin> verdicts m d)
   \<and> (absent_in (cross_slope m) (get_det_id d) \<longrightarrow> ''Cross Slope'' \<notin> verdicts m d)
   \<and> (absent_in (width m) (get_det_id d) \<longrightarrow> ''Sidewalk Width'' \<notin> verdicts m d)
   \<and> (absent_in (landing_size m) (get_det_id d) \<longrightarrow> ''Landing Size'' \<notin> verdicts m d)
   \<and> (absent_in (max_gap m) (get_det_id d) \<longrightarrow> ''Surface Quality'' \<notin> verdicts m d)
   \<and> (absent_in (vertical_change m) (get_det_id d) \<longrightarrow> ''Trip Hazard'' \<notin> verdicts m d)
   \<and> (absent_in (marking_quality m) (get_det_id d) \<longrightarrow>
          ''Crosswalk Markings'' \<notin> verdicts m d)
   \<and> (curb_ramp_class d \<and> absent_in (detectable_warning m) (get_det_id d) \<longrightarrow>
          ''Detectable Warning'' \<in> verdicts m d)
   \<and> (crosswalk_class d \<and> absent_in (has_curb_ramps m) (get_det_id d) \<longrightarrow>
          ''Missing Curb Ramps'' \<in> verdicts m d)"
  using absent_slope absent_cross_slope absent_width absent_landing_size absent_max_gap
    absent_vertical_change absent_marking_quality absent_detectable_warning
    absent_has_curb_ramps
  by blast

theorem absent_measurement_verdicts_witness:
  "absent_in (slope m_empty) (get_det_id d_ramp)
   \<and> ''Curb Ramp Slope'' \<notin> verdicts m_empty d_ramp
   \<and> absent_in (width m_empty) (get_det_id d_sidewalk)
   \<and> ''Sidewalk Width'' \<notin> verdicts m_empty d_sidewalk
   \<and> curb_ramp_class d_ramp
   \<and> absent_in (detectable_warning m_empty) (get_det_id d_ramp)
   \<and> ''Detectable Warning'' \<in> verdicts m_empty d_ramp
   \<and> crosswalk_class d_crosswalk
   \<and> absent_in (has_curb_ramps m_empty) (get_det_id d_crosswalk)
   \<and> ''Missing Curb Ramps'' \<in> verdicts m_empty d_crosswalk"
  using absent_measurement_verdicts [of m_empty d_ramp]
    absent_measurement_verdicts [of m_empty d_sidewalk]
    absent_measurement_verdicts [of m_empty d_crosswalk]
    classes_of_inputs
  by (simp add: absent_in_def m_empty_def)

end
